theory Spec2Isabelle
  imports Complex_Main "HOL-Library.Sublist" "HOL-Library.Multiset"
    "HOL-Library.Char_ord" "HOL-Library.List_Lexorder"
begin

section \<open>The watch-history pipeline of pages/profile/History.tsx\<close>

text \<open>
  The component keeps its inputs in React state (\<open>movies\<close>, the filter fields, \<open>sortBy\<close>,
  \<open>groupBy\<close>, \<open>itemsPerPage\<close>, \<open>currentPage\<close>) and one derived list, \<open>filteredMovies\<close>,
  written by \<open>applyFilters\<close>. Everything else (page slice, statistics, groups) is
  recomputed in the body of the component on every render. The model follows that split:
  a record for the state, \<open>applyFilters\<close> as a function on it, and one definition for
  each value the render body computes.

  Numbers are modelled as \<open>int\<close>: durations, list lengths and millisecond timestamps are
  integers far below \<open>2 ^ 53\<close>, where JavaScript's double arithmetic is exact. Strings are
  lists of characters; the string built-ins whose result rests on the Unicode tables or on
  the locale (\<open>toLowerCase\<close>, \<open>trim\<close>, \<open>localeCompare\<close>) are parameters of the model.
\<close>

subsection \<open>Data model\<close>

datatype SortOption = SortName | SortRating | SortDuration | SortDateAdded

datatype GroupOption = GroupNone | GroupMonth | GroupYear

text \<open>
  Modelled from the spec: the type declaration \<open>FilmHistory\<close> (imported from api/users) is
  not part of the sources at hand. The fields are the ones History.tsx reads, with the
  optionality the spec's data model gives them. \<open>dateAdded\<close> is held as the millisecond
  timestamp that \<open>new Date(movie.dateAdded)\<close> yields; \<open>None\<close> stands for an absent
  (falsy) field.
\<close>

record FilmHistory =
  film_id :: string
  name :: string
  genre :: "string option"
  rating :: "string option"
  duration :: "int option"
  description :: "string option"
  dateAdded :: "int option"

text \<open>
  \<open>dateRange\<close> holds the two date inputs. \<open>None\<close> is the empty string of an unset input,
  \<open>Some t\<close> the timestamp of \<open>new Date(dateRange.from)\<close>.
\<close>

record DateRange =
  from_date :: "int option"
  to_date :: "int option"

record state =
  movies :: "FilmHistory list"
  filteredMovies :: "FilmHistory list"
  searchQuery :: string
  selectedGenres :: "string list"
  ratingFilter :: string
  durationFilter :: string
  yearFilter :: string
  dateRange :: DateRange
  sortBy :: SortOption
  groupBy :: GroupOption
  itemsPerPage :: int
  currentPage :: int

text \<open>
  What the JavaScript engine supplies: \<open>String.prototype.localeCompare\<close> with its
  collation, \<open>String.prototype.toLowerCase\<close> and \<open>String.prototype.trim\<close> with their
  Unicode case mapping and white space, and the local time zone (offset from UTC in
  milliseconds at a given instant). Every property below that does not name a host holds
  for all of them.
\<close>

record host =
  localeCompare :: "string \<Rightarrow> string \<Rightarrow> int"
  toLowerCase :: "string \<Rightarrow> string"
  trim :: "string \<Rightarrow> string"
  tzOffset :: "int \<Rightarrow> int"

subsection \<open>String helpers\<close>

text \<open>\<open>s.includes(q)\<close>: \<open>q\<close> occurs in \<open>s\<close> as a contiguous run.\<close>

fun includes_str :: "string \<Rightarrow> string \<Rightarrow> bool" where
  "includes_str [] q = (q = [])"
| "includes_str (c # cs) q = (prefix q (c # cs) \<or> includes_str cs q)"

text \<open>\<open>Number.prototype.toString\<close> on an integer.\<close>

function digits :: "int \<Rightarrow> string" where
  "digits n =
     (if n < 10 then [char_of (48 + n)] else digits (n div 10) @ [char_of (48 + n mod 10)])"
  by pat_completeness auto
termination
  by (relation "measure nat") auto

declare digits.simps [simp del]

definition number_toString :: "int \<Rightarrow> string" where
  "number_toString i = (if i < 0 then CHR ''-'' # digits (- i) else digits i)"

subsection \<open>Filter stage\<close>

definition searchMatch :: "host \<Rightarrow> string \<Rightarrow> FilmHistory \<Rightarrow> bool" where
  "searchMatch h query movie =
     (includes_str (toLowerCase h (name movie)) query
      \<or> (case genre movie of None \<Rightarrow> False | Some g \<Rightarrow> includes_str (toLowerCase h g) query)
      \<or> (case description movie of
            None \<Rightarrow> False
          | Some d \<Rightarrow> includes_str (toLowerCase h d) query))"

definition genreMatch :: "string list \<Rightarrow> FilmHistory \<Rightarrow> bool" where
  "genreMatch genres movie =
     (case genre movie of None \<Rightarrow> False | Some g \<Rightarrow> g \<noteq> [] \<and> g \<in> set genres)"

definition ratingMatch :: "string \<Rightarrow> FilmHistory \<Rightarrow> bool" where
  "ratingMatch r movie = (rating movie = Some r)"

definition durationOrZero :: "FilmHistory \<Rightarrow> int" where
  "durationOrZero movie = (case duration movie of None \<Rightarrow> 0 | Some d \<Rightarrow> d)"

definition durationMatch :: "string \<Rightarrow> FilmHistory \<Rightarrow> bool" where
  "durationMatch bucket movie =
     (let d = durationOrZero movie in
      if bucket = ''short'' then d < 90
      else if bucket = ''medium'' then d \<ge> 90 \<and> d \<le> 120
      else if bucket = ''long'' then d > 120
      else True)"

definition dateMatch :: "DateRange \<Rightarrow> FilmHistory \<Rightarrow> bool" where
  "dateMatch r movie =
     (case dateAdded movie of
        None \<Rightarrow> True
      | Some movieDate \<Rightarrow>
          if (case from_date r of None \<Rightarrow> False | Some f \<Rightarrow> f > movieDate) then False
          else if (case to_date r of None \<Rightarrow> False | Some t \<Rightarrow> t < movieDate) then False
          else True)"

text \<open>
  The body of \<open>applyFilters\<close> up to the sort: each block narrows \<open>result\<close> when its
  control is set. The year block is empty in the source.
\<close>

definition filterStage :: "host \<Rightarrow> state \<Rightarrow> FilmHistory list" where
  "filterStage h s =
     (let result = movies s;
          result = (if trim h (searchQuery s) \<noteq> []
                    then filter (searchMatch h (toLowerCase h (searchQuery s))) result
                    else result);
          result = (if selectedGenres s \<noteq> []
                    then filter (genreMatch (selectedGenres s)) result
                    else result);
          result = (if ratingFilter s \<noteq> ''all''
                    then filter (ratingMatch (ratingFilter s)) result
                    else result);
          result = (if durationFilter s \<noteq> ''all''
                    then filter (durationMatch (durationFilter s)) result
                    else result);
          result = (if yearFilter s \<noteq> ''all'' then result else result);
          result = (if from_date (dateRange s) \<noteq> None \<or> to_date (dateRange s) \<noteq> None
                    then filter (dateMatch (dateRange s)) result
                    else result)
      in result)"

subsection \<open>Sort stage\<close>

definition ratingOrEmpty :: "FilmHistory \<Rightarrow> string" where
  "ratingOrEmpty movie = (case rating movie of None \<Rightarrow> [] | Some r \<Rightarrow> r)"

definition dateOrEpoch :: "FilmHistory \<Rightarrow> int" where
  "dateOrEpoch movie = (case dateAdded movie of None \<Rightarrow> 0 | Some t \<Rightarrow> t)"

definition compareMovies :: "host \<Rightarrow> SortOption \<Rightarrow> FilmHistory \<Rightarrow> FilmHistory \<Rightarrow> int" where
  "compareMovies h key a b =
     (case key of
        SortName \<Rightarrow> localeCompare h (name a) (name b)
      | SortRating \<Rightarrow> localeCompare h (ratingOrEmpty b) (ratingOrEmpty a)
      | SortDuration \<Rightarrow> durationOrZero b - durationOrZero a
      | SortDateAdded \<Rightarrow> dateOrEpoch b - dateOrEpoch a)"

text \<open>
  \<open>Array.prototype.sort\<close> with a comparator is stable. For a comparator that is a
  consistent ordering the result is therefore fixed by the language: the elements in
  comparator order, ties in input order. The model is the stable insertion sort that
  produces this arrangement.
\<close>

fun place :: "('a \<Rightarrow> 'a \<Rightarrow> int) \<Rightarrow> 'a \<Rightarrow> 'a list \<Rightarrow> 'a list" where
  "place cmp x [] = [x]"
| "place cmp x (y # ys) = (if cmp x y \<le> 0 then x # y # ys else y # place cmp x ys)"

definition js_sort :: "('a \<Rightarrow> 'a \<Rightarrow> int) \<Rightarrow> 'a list \<Rightarrow> 'a list" where
  "js_sort cmp xs = foldr (place cmp) xs []"

definition applyFilters :: "host \<Rightarrow> state \<Rightarrow> state" where
  "applyFilters h s =
     s\<lparr>filteredMovies := js_sort (compareMovies h (sortBy s)) (filterStage h s),
       currentPage := 1\<rparr>"

subsection \<open>Pagination and statistics (render body)\<close>

text \<open>
  \<open>Math.ceil(filteredMovies.length / itemsPerPage)\<close>. With \<open>itemsPerPage = 0\<close> the
  quotient is \<open>NaN\<close> or \<open>Infinity\<close>, which is no page count: \<open>None\<close>.
\<close>

definition totalPages :: "state \<Rightarrow> int option" where
  "totalPages s =
     (if itemsPerPage s = 0 then None
      else Some (- ((- int (length (filteredMovies s))) div itemsPerPage s)))"

definition startIndex :: "state \<Rightarrow> int" where
  "startIndex s = (currentPage s - 1) * itemsPerPage s"

definition endIndex :: "state \<Rightarrow> int" where
  "endIndex s = startIndex s + itemsPerPage s"

text \<open>
  \<open>Array.prototype.slice(start, end)\<close>: a negative index counts from the end, and both
  indices are clamped to the length.
\<close>

definition js_slice :: "'a list \<Rightarrow> int \<Rightarrow> int \<Rightarrow> 'a list" where
  "js_slice xs start fin =
     (let len = int (length xs);
          k = (if start < 0 then max (len + start) 0 else min start len);
          final = (if fin < 0 then max (len + fin) 0 else min fin len)
      in take (nat (final - k)) (drop (nat k) xs))"

definition currentMovies :: "state \<Rightarrow> FilmHistory list" where
  "currentMovies s = js_slice (filteredMovies s) (startIndex s) (endIndex s)"

definition totalMovies :: "state \<Rightarrow> int" where
  "totalMovies s = int (length (movies s))"

text \<open>
  \<open>Math.round(sum / 60)\<close> rounds to the nearest integer, a half towards plus infinity;
  on an integer \<open>sum\<close> that is \<open>(sum + 30) div 60\<close>.
\<close>

definition totalHours :: "state \<Rightarrow> int" where
  "totalHours s =
     (foldl (\<lambda>sum movie. sum + durationOrZero movie) 0 (movies s) + 30) div 60"

definition filteredCount :: "state \<Rightarrow> int" where
  "filteredCount s = int (length (filteredMovies s))"

subsection \<open>Dates\<close>

text \<open>
  Year and month of a timestamp in local time, by the proleptic Gregorian calendar that
  the language prescribes for \<open>Date\<close>: days since the epoch, shifted to a year that
  starts on 1 March, split into 400-year eras.
\<close>

definition localDays :: "host \<Rightarrow> int \<Rightarrow> int" where
  "localDays h t = (t + tzOffset h t) div 86400000"

definition civil :: "int \<Rightarrow> int \<times> int" where
  "civil days =
     (let z = days + 719468;
          era = z div 146097;
          doe = z - era * 146097;
          yoe = (doe - doe div 1460 + doe div 36524 - doe div 146096) div 365;
          doy = doe - (365 * yoe + yoe div 4 - yoe div 100);
          mp = (5 * doy + 2) div 153;
          m = (if mp < 10 then mp + 3 else mp - 9);
          y = yoe + era * 400 + (if m \<le> 2 then 1 else 0)
      in (y, m))"

definition getFullYear :: "host \<Rightarrow> int \<Rightarrow> int" where
  "getFullYear h t = fst (civil (localDays h t))"

definition getMonth :: "host \<Rightarrow> int \<Rightarrow> int" where
  "getMonth h t = snd (civil (localDays h t)) - 1"

definition monthNames :: "string list" where
  "monthNames =
     [''January'', ''February'', ''March'', ''April'', ''May'', ''June'', ''July'',
      ''August'', ''September'', ''October'', ''November'', ''December'']"

text \<open>
  \<open>toLocaleDateString('en-US', { year: 'numeric', month: 'long' })\<close>, for years of the
  common era: the month's English name, a space, the year.
\<close>

definition monthYearLabel :: "host \<Rightarrow> int \<Rightarrow> string" where
  "monthYearLabel h t =
     monthNames ! nat (getMonth h t mod 12) @ '' '' @ number_toString (getFullYear h t)"

subsection \<open>Group stage\<close>

text \<open>
  A plain object is the list of its own string-keyed properties in creation order.
  Assigning to an existing key keeps its place; a new key goes to the end.
\<close>

type_synonym 'v js_object = "(string \<times> 'v) list"

definition obj_get :: "'v js_object \<Rightarrow> string \<Rightarrow> 'v option" where
  "obj_get obj k = map_of obj k"

definition obj_set :: "string \<Rightarrow> 'v \<Rightarrow> 'v js_object \<Rightarrow> 'v js_object" where
  "obj_set k v obj =
     (if map_of obj k = None then obj @ [(k, v)]
      else map (\<lambda>(k', v'). if k' = k then (k', v) else (k', v')) obj)"

text \<open>
  \<open>Object.entries\<close> lists own properties in the language's property order: first the
  keys that are array indices (canonical decimal numerals below \<open>2 ^ 32 - 1 = 4294967295\<close>),
  ascending
  by numeric value, then all other string keys in creation order.
\<close>

definition is_digit :: "char \<Rightarrow> bool" where
  "is_digit c = (48 \<le> (of_char c :: nat) \<and> (of_char c :: nat) \<le> 57)"

definition digits_value :: "string \<Rightarrow> int" where
  "digits_value k = foldl (\<lambda>acc c. 10 * acc + (of_char c - 48)) 0 k"

definition is_array_index :: "string \<Rightarrow> bool" where
  "is_array_index k =
     (k \<noteq> [] \<and> list_all is_digit k \<and> (hd k \<noteq> CHR ''0'' \<or> k = ''0'')
      \<and> digits_value k < 4294967295)"

definition object_entries :: "'v js_object \<Rightarrow> (string \<times> 'v) list" where
  "object_entries obj =
     sort_key (\<lambda>(k, v). digits_value k) (filter (\<lambda>(k, v). is_array_index k) obj)
     @ filter (\<lambda>(k, v). \<not> is_array_index k) obj"

definition groupKey :: "host \<Rightarrow> GroupOption \<Rightarrow> FilmHistory \<Rightarrow> string" where
  "groupKey h g movie =
     (case dateAdded movie of
        None \<Rightarrow> ''Unknown''
      | Some t \<Rightarrow>
          (case g of
             GroupMonth \<Rightarrow> monthYearLabel h t
           | GroupYear \<Rightarrow> number_toString (getFullYear h t)
           | GroupNone \<Rightarrow> []))"

text \<open>\<open>groups[key] = groups[key] || []; groups[key].push(movie)\<close>\<close>

definition pushGroup :: "string \<Rightarrow> FilmHistory \<Rightarrow> FilmHistory list js_object \<Rightarrow> FilmHistory list js_object" where
  "pushGroup key movie groups =
     (let arr = (case obj_get groups key of None \<Rightarrow> [] | Some a \<Rightarrow> a)
      in obj_set key (arr @ [movie]) groups)"

definition groupedMovies :: "host \<Rightarrow> state \<Rightarrow> FilmHistory list js_object" where
  "groupedMovies h s =
     (if groupBy s = GroupNone then [(''All Movies'', currentMovies s)]
      else foldl (\<lambda>groups movie. pushGroup (groupKey h (groupBy s) movie) movie groups)
             [] (currentMovies s))"

text \<open>The groups in the order the movie list renders them: \<open>Object.entries(groupedMovies)\<close>.\<close>

definition groupedEntries :: "host \<Rightarrow> state \<Rightarrow> (string \<times> FilmHistory list) list" where
  "groupedEntries h s = object_entries (groupedMovies h s)"

subsection \<open>One render\<close>

text \<open>The values one execution of the component body derives from the state.\<close>

record rendered =
  r_totalPages :: "int option"
  r_currentMovies :: "FilmHistory list"
  r_totalMovies :: int
  r_totalHours :: int
  r_filteredCount :: int
  r_groups :: "(string \<times> FilmHistory list) list"

definition render :: "host \<Rightarrow> state \<Rightarrow> rendered" where
  "render h s =
     \<lparr>r_totalPages = totalPages s,
      r_currentMovies = currentMovies s,
      r_totalMovies = totalMovies s,
      r_totalHours = totalHours s,
      r_filteredCount = filteredCount s,
      r_groups = groupedEntries h s\<rparr>"

text \<open>A run of the pipeline: the effect \<open>applyFilters\<close>, then the render of its state.\<close>

definition pipeline :: "host \<Rightarrow> state \<Rightarrow> rendered" where
  "pipeline h s = render h (applyFilters h s)"

subsection \<open>Controls\<close>

datatype event =
    SetSearchQuery string
  | ToggleGenre string
  | SetRatingFilter string
  | SetDurationFilter string
  | SetDateFrom "int option"
  | SetDateTo "int option"
  | ResetFilters
  | SetSortBy SortOption
  | SetGroupBy GroupOption
  | SetItemsPerPage int
  | PreviousPage
  | NextPage

definition toggleGenre :: "string \<Rightarrow> string list \<Rightarrow> string list" where
  "toggleGenre g prev = (if g \<in> set prev then filter (\<lambda>x. x \<noteq> g) prev else prev @ [g])"

definition resetFilters :: "state \<Rightarrow> state" where
  "resetFilters s =
     s\<lparr>searchQuery := [], selectedGenres := [], ratingFilter := ''all'',
       durationFilter := ''all'', yearFilter := ''all'',
       dateRange := \<lparr>from_date = None, to_date = None\<rparr>\<rparr>"

text \<open>
  The state updates of each control's handler. The page buttons exist only while
  \<open>totalPages > 1\<close>.
\<close>

fun handler :: "event \<Rightarrow> state \<Rightarrow> state" where
  "handler (SetSearchQuery q) s = s\<lparr>searchQuery := q\<rparr>"
| "handler (ToggleGenre g) s = s\<lparr>selectedGenres := toggleGenre g (selectedGenres s)\<rparr>"
| "handler (SetRatingFilter r) s = s\<lparr>ratingFilter := r\<rparr>"
| "handler (SetDurationFilter d) s = s\<lparr>durationFilter := d\<rparr>"
| "handler (SetDateFrom f) s = s\<lparr>dateRange := (dateRange s)\<lparr>from_date := f\<rparr>\<rparr>"
| "handler (SetDateTo t) s = s\<lparr>dateRange := (dateRange s)\<lparr>to_date := t\<rparr>\<rparr>"
| "handler ResetFilters s = resetFilters s"
| "handler (SetSortBy k) s = s\<lparr>sortBy := k\<rparr>"
| "handler (SetGroupBy g) s = s\<lparr>groupBy := g\<rparr>"
| "handler (SetItemsPerPage n) s = s\<lparr>itemsPerPage := n, currentPage := 1\<rparr>"
| "handler PreviousPage s =
     (case totalPages s of
        Some tp \<Rightarrow> if tp > 1 then s\<lparr>currentPage := max 1 (currentPage s - 1)\<rparr> else s
      | None \<Rightarrow> s)"
| "handler NextPage s =
     (case totalPages s of
        Some tp \<Rightarrow> if tp > 1 then s\<lparr>currentPage := min tp (currentPage s + 1)\<rparr> else s
      | None \<Rightarrow> s)"

text \<open>
  The effect that calls \<open>applyFilters\<close> runs after a render in which one of its
  dependencies differs from the render before. Strings and the sort key are compared by
  value; the genre array and the date-range object are rebuilt by their handlers, so they
  differ on every such event.
\<close>

definition deps :: "state \<Rightarrow> FilmHistory list \<times> string \<times> string list \<times> string \<times> string \<times> string \<times> DateRange \<times> SortOption" where
  "deps s =
     (movies s, searchQuery s, selectedGenres s, ratingFilter s, durationFilter s,
      yearFilter s, dateRange s, sortBy s)"

fun rebuilds :: "event \<Rightarrow> bool" where
  "rebuilds (ToggleGenre g) = True"
| "rebuilds (SetDateFrom f) = True"
| "rebuilds (SetDateTo t) = True"
| "rebuilds ResetFilters = True"
| "rebuilds e = False"

definition dispatch :: "host \<Rightarrow> event \<Rightarrow> state \<Rightarrow> state" where
  "dispatch h e s =
     (let s' = handler e s
      in if rebuilds e \<or> deps s' \<noteq> deps s then applyFilters h s' else s')"

text \<open>The events that change a filter criterion, the sort key or the page size.\<close>

fun changesQuery :: "event \<Rightarrow> state \<Rightarrow> bool" where
  "changesQuery (SetSearchQuery q) s = (q \<noteq> searchQuery s)"
| "changesQuery (ToggleGenre g) s = True"
| "changesQuery (SetRatingFilter r) s = (r \<noteq> ratingFilter s)"
| "changesQuery (SetDurationFilter d) s = (d \<noteq> durationFilter s)"
| "changesQuery (SetDateFrom f) s = True"
| "changesQuery (SetDateTo t) s = True"
| "changesQuery ResetFilters s = True"
| "changesQuery (SetSortBy k) s = (k \<noteq> sortBy s)"
| "changesQuery (SetItemsPerPage n) s = True"
| "changesQuery e s = False"

subsection \<open>Sample data\<close>

text \<open>
  A host for the concrete inputs below: code-unit string comparison, case folding and
  white space of the ASCII range, running in UTC.
\<close>

definition asciiLowerChar :: "char \<Rightarrow> char" where
  "asciiLowerChar c =
     (let n = (of_char c :: nat) in if 65 \<le> n \<and> n \<le> 90 then char_of (n + 32) else c)"

definition asciiLowerCase :: "string \<Rightarrow> string" where
  "asciiLowerCase s = map asciiLowerChar s"

definition asciiSpace :: "char \<Rightarrow> bool" where
  "asciiSpace c = ((of_char c :: nat) \<in> {9, 10, 11, 12, 13, 32})"

definition asciiTrim :: "string \<Rightarrow> string" where
  "asciiTrim s = rev (dropWhile asciiSpace (rev (dropWhile asciiSpace s)))"

fun codeUnitCompare :: "string \<Rightarrow> string \<Rightarrow> int" where
  "codeUnitCompare [] [] = 0"
| "codeUnitCompare [] (y # ys) = - 1"
| "codeUnitCompare (x # xs) [] = 1"
| "codeUnitCompare (x # xs) (y # ys) =
     (if (of_char x :: nat) < of_char y then - 1
      else if (of_char y :: nat) < of_char x then 1
      else codeUnitCompare xs ys)"

definition utcHost :: host where
  "utcHost =
     \<lparr>localeCompare = codeUnitCompare, toLowerCase = asciiLowerCase, trim = asciiTrim,
      tzOffset = (\<lambda>t. 0)\<rparr>"

text \<open>
  The two entries of the spec's scenarios, dated 2025-02-19 and 2024-03-01 (UTC), an
  undated entry, and one dated a millisecond before the epoch.
\<close>

definition alpha :: FilmHistory where
  "alpha = \<lparr>film_id = ''1'', name = ''Alpha'', genre = Some ''action'', rating = Some ''PG'',
     duration = Some 85, description = None, dateAdded = Some 1740000000000\<rparr>"

definition beta :: FilmHistory where
  "beta = \<lparr>film_id = ''2'', name = ''Beta'', genre = Some ''drama'', rating = Some ''R'',
     duration = Some 130, description = None, dateAdded = Some 1709251200000\<rparr>"

definition gamma :: FilmHistory where
  "gamma = \<lparr>film_id = ''3'', name = ''Gamma'', genre = None, rating = None,
     duration = None, description = None, dateAdded = None\<rparr>"

definition delta :: FilmHistory where
  "delta = \<lparr>film_id = ''4'', name = ''Delta'', genre = None, rating = Some ''G'',
     duration = Some 100, description = None, dateAdded = Some (- 1)\<rparr>"

text \<open>The component's initial values around a loaded history, before the effect has run.\<close>

definition initial :: "FilmHistory list \<Rightarrow> state" where
  "initial ms =
     \<lparr>movies = ms, filteredMovies = [], searchQuery = [], selectedGenres = [],
      ratingFilter = ''all'', durationFilter = ''all'', yearFilter = ''all'',
      dateRange = \<lparr>from_date = None, to_date = None\<rparr>,
      sortBy = SortName, groupBy = GroupNone, itemsPerPage = 10, currentPage = 1\<rparr>"

text \<open>States used as concrete inputs below.\<close>

definition shortOnly :: state where
  "shortOnly = (initial [alpha, beta, gamma])\<lparr>durationFilter := ''short''\<rparr>"

definition since2025 :: state where
  "since2025 =
     (initial [alpha, beta, gamma])\<lparr>dateRange := \<lparr>from_date = Some 1735689600000, to_date = None\<rparr>\<rparr>"

definition byYear :: state where
  "byYear = (initial [alpha, beta])\<lparr>groupBy := GroupYear\<rparr>"



definition noMatch :: state where
  "noMatch = (initial [alpha, beta])\<lparr>ratingFilter := ''G'', groupBy := GroupMonth\<rparr>"

definition thirdPage :: state where
  "thirdPage =
     (initial [alpha, beta, gamma])\<lparr>filteredMovies := [alpha, beta, gamma],
       itemsPerPage := 1, currentPage := 3\<rparr>"

subsection \<open>Notions used to state the properties\<close>

text \<open>
  The conjunction of the predicates whose control is set: the filter stage keeps exactly
  the entries that satisfy it (\<open>filterStage_filter\<close> below).
\<close>

definition passes :: "host \<Rightarrow> state \<Rightarrow> FilmHistory \<Rightarrow> bool" where
  "passes h s movie =
     ((trim h (searchQuery s) \<noteq> []
         \<longrightarrow> searchMatch h (toLowerCase h (searchQuery s)) movie)
      \<and> (selectedGenres s \<noteq> [] \<longrightarrow> genreMatch (selectedGenres s) movie)
      \<and> (ratingFilter s \<noteq> ''all'' \<longrightarrow> ratingMatch (ratingFilter s) movie)
      \<and> (durationFilter s \<noteq> ''all'' \<longrightarrow> durationMatch (durationFilter s) movie)
      \<and> (from_date (dateRange s) \<noteq> None \<or> to_date (dateRange s) \<noteq> None
           \<longrightarrow> dateMatch (dateRange s) movie))"


text \<open>
  Specification side: the labels of a sequence in the order of their first occurrence.
\<close>

fun firstSeen :: "'a list \<Rightarrow> 'a list" where
  "firstSeen [] = []"
| "firstSeen (x # xs) = x # filter (\<lambda>y. y \<noteq> x) (firstSeen xs)"

text \<open>
  Specification side: the grouping the spec describes. One bucket for each label, buckets
  in the order their labels are first met, each holding its entries in sequence order.
\<close>

definition bucketsOf :: "('a \<Rightarrow> string) \<Rightarrow> 'a list \<Rightarrow> (string \<times> 'a list) list" where
  "bucketsOf key xs = map (\<lambda>k. (k, filter (\<lambda>m. key m = k) xs)) (firstSeen (map key xs))"

section \<open>Properties\<close>

subsection \<open>Filter stage\<close>

lemma if_filter: "(if c then filter P xs else xs) = filter (\<lambda>x. c \<longrightarrow> P x) xs"
  by simp

lemma filterStage_filter: "filterStage h s = filter (passes h s) (movies s)"
  unfolding filterStage_def if_filter if_cancel Let_def filter_filter passes_def
  by (rule filter_cong) auto

lemma filterStage_subseq: "subseq (filterStage h s) (movies s)"
  by (simp add: filterStage_filter)

lemma filterStage_date:
  "filterStage h s =
     filter (dateMatch (dateRange s))
       (filterStage h (s\<lparr>dateRange := \<lparr>from_date = None, to_date = None\<rparr>\<rparr>))"
  unfolding filterStage_filter filter_filter
  by (rule filter_cong) (auto simp: passes_def dateMatch_def split: option.splits)

lemma filterStage_duration:
  "filterStage h s =
     filter (durationMatch (durationFilter s)) (filterStage h (s\<lparr>durationFilter := ''all''\<rparr>))"
  unfolding filterStage_filter filter_filter
  by (rule filter_cong) (auto simp: passes_def durationMatch_def)

lemma filterStage_year: "filterStage h (s\<lparr>yearFilter := y\<rparr>) = filterStage h s"
  by (auto simp: filterStage_filter passes_def intro: filter_cong)

text \<open>
  C4. The date-range filter, applied when at least one bound is set, is the last
  narrowing of the filter stage. An entry without \<open>dateAdded\<close> passes it; an entry dated
  \<open>d\<close> passes exactly when \<open>d\<close> is not before \<open>from\<close> and not after \<open>to\<close>, for the bounds
  that are set (both ends inclusive).
\<close>

theorem date_range_filter:
  assumes "from_date (dateRange s) \<noteq> None \<or> to_date (dateRange s) \<noteq> None"
  shows "filterStage h s =
           filter (dateMatch (dateRange s))
             (filterStage h (s\<lparr>dateRange := \<lparr>from_date = None, to_date = None\<rparr>\<rparr>))
         \<and> (dateAdded movie = None \<longrightarrow> dateMatch (dateRange s) movie)
         \<and> (\<forall>d. dateAdded movie = Some d \<longrightarrow>
               dateMatch (dateRange s) movie =
                 ((\<forall>f. from_date (dateRange s) = Some f \<longrightarrow> f \<le> d)
                  \<and> (\<forall>t. to_date (dateRange s) = Some t \<longrightarrow> d \<le> t)))"
  using filterStage_date[of h s]
  by (auto simp: dateMatch_def split: option.splits)

theorem date_range_filter_witness:
  "from_date (dateRange since2025) = Some 1735689600000
   \<and> filterStage utcHost since2025 = [alpha, gamma]
   \<and> dateMatch (dateRange since2025) gamma
   \<and> dateMatch (dateRange since2025) alpha
   \<and> \<not> dateMatch (dateRange since2025) beta"
proof -
  have r: "dateRange since2025 = \<lparr>from_date = Some 1735689600000, to_date = None\<rparr>"
    by (simp add: since2025_def initial_def)
  then have set: "from_date (dateRange since2025) \<noteq> None \<or> to_date (dateRange since2025) \<noteq> None"
    by simp
  have rest: "filterStage utcHost (since2025\<lparr>dateRange := \<lparr>from_date = None, to_date = None\<rparr>\<rparr>)
                = [alpha, beta, gamma]"
    by code_simp
  have dates: "dateAdded gamma = None" "dateAdded alpha = Some 1740000000000"
    "dateAdded beta = Some 1709251200000"
    by (simp_all add: alpha_def beta_def gamma_def)
  from date_range_filter[OF set, where h = utcHost and movie = gamma]
    date_range_filter[OF set, where h = utcHost and movie = alpha]
    date_range_filter[OF set, where h = utcHost and movie = beta] dates r rest
  show ?thesis by simp
qed

text \<open>
  C5. The duration filter classifies an entry by \<open>duration\<close>, taken as 0 when absent:
  ``short'' keeps durations below 90, ``medium'' those from 90 to 120 with both ends,
  ``long'' those above 120, and ``all'' keeps every entry. The filter stage keeps the
  entries of the other filters' result that the bucket's test accepts.
\<close>

theorem duration_bucket_filter:
  "filterStage h s =
     filter (durationMatch (durationFilter s)) (filterStage h (s\<lparr>durationFilter := ''all''\<rparr>))
   \<and> durationOrZero movie = (case duration movie of None \<Rightarrow> 0 | Some d \<Rightarrow> d)
   \<and> durationMatch ''short'' movie = (durationOrZero movie < 90)
   \<and> durationMatch ''medium'' movie = (90 \<le> durationOrZero movie \<and> durationOrZero movie \<le> 120)
   \<and> durationMatch ''long'' movie = (durationOrZero movie > 120)
   \<and> durationMatch ''all'' movie"
  using filterStage_duration[of h s]
  by (simp add: durationMatch_def durationOrZero_def Let_def)

theorem duration_bucket_filter_witness:
  "filterStage utcHost shortOnly = [alpha, gamma]
   \<and> durationMatch ''short'' alpha \<and> \<not> durationMatch ''short'' beta
   \<and> durationMatch ''short'' gamma \<and> durationMatch ''long'' beta
   \<and> durationMatch ''medium'' delta"
proof -
  have f: "durationFilter shortOnly = ''short''"
    by (simp add: shortOnly_def initial_def)
  have rest: "filterStage utcHost (shortOnly\<lparr>durationFilter := ''all''\<rparr>) = [alpha, beta, gamma]"
    by code_simp
  have d: "durationOrZero alpha = 85" "durationOrZero beta = 130" "durationOrZero gamma = 0"
    "durationOrZero delta = 100"
    by (simp_all add: durationOrZero_def alpha_def beta_def gamma_def delta_def)
  from duration_bucket_filter[where h = utcHost and s = shortOnly and movie = alpha]
    duration_bucket_filter[where h = utcHost and s = shortOnly and movie = beta]
    duration_bucket_filter[where h = utcHost and s = shortOnly and movie = gamma]
    duration_bucket_filter[where h = utcHost and s = shortOnly and movie = delta]
    f rest d
  show ?thesis by simp
qed

subsection \<open>Sort stage\<close>

lemma mset_place: "mset (place cmp x ys) = add_mset x (mset ys)"
  by (induction ys) auto

lemma mset_js_sort: "mset (js_sort cmp xs) = mset xs"
  by (induction xs) (auto simp: js_sort_def mset_place)

lemma length_js_sort: "length (js_sort cmp xs) = length xs"
  by (metis mset_js_sort size_mset)

lemma js_sort_Nil: "js_sort cmp [] = []"
  by (simp add: js_sort_def)










subsection \<open>The filtered list\<close>

text \<open>
  C9. The result of the filter stage is a subsequence of the base collection: it holds
  entries of \<open>movies\<close> only, in the order \<open>movies\<close> has them. The sort that follows
  rearranges it, so the stored \<open>filteredMovies\<close> is a sub-multiset of the base.
\<close>

theorem filtered_subset_of_base:
  "subseq (filterStage h s) (movies s)
   \<and> mset (filteredMovies (applyFilters h s)) \<subseteq># mset (movies s)
   \<and> set (filteredMovies (applyFilters h s)) \<subseteq> set (movies s)"
proof -
  have a: "subseq (filterStage h s) (movies s)" by (rule filterStage_subseq)
  have b: "mset (filteredMovies (applyFilters h s)) = mset (filterStage h s)"
    by (simp add: applyFilters_def mset_js_sort)
  have c: "mset (filterStage h s) \<subseteq># mset (movies s)"
    by (simp add: filterStage_filter)
  show ?thesis using a b c
    by (metis set_mset_mono set_mset_mset)
qed

theorem filtered_subset_of_base_witness:
  "movies shortOnly = [alpha, beta, gamma]
   \<and> filterStage utcHost shortOnly = [alpha, gamma]
   \<and> subseq [alpha, gamma] [alpha, beta, gamma]
   \<and> set (filteredMovies (applyFilters utcHost shortOnly)) \<subseteq> {alpha, beta, gamma}"
proof -
  have m: "movies shortOnly = [alpha, beta, gamma]"
    by (simp add: shortOnly_def initial_def)
  have f: "filterStage utcHost shortOnly = [alpha, gamma]"
    by code_simp
  from filtered_subset_of_base[where h = utcHost and s = shortOnly] m f show ?thesis by simp
qed

text \<open>
  C10. \<open>yearFilter\<close> has no effect: two runs of the pipeline from states that differ in
  \<open>yearFilter\<close> only store the same filtered list and render the same page slice, groups
  and statistics.
\<close>

theorem year_filter_noop:
  "filteredMovies (applyFilters h (s\<lparr>yearFilter := ya\<rparr>))
     = filteredMovies (applyFilters h (s\<lparr>yearFilter := yb\<rparr>))
   \<and> pipeline h (s\<lparr>yearFilter := ya\<rparr>) = pipeline h (s\<lparr>yearFilter := yb\<rparr>)"
  by (simp add: pipeline_def render_def applyFilters_def filterStage_year totalPages_def
      currentMovies_def startIndex_def endIndex_def totalMovies_def totalHours_def
      filteredCount_def groupedEntries_def groupedMovies_def)

theorem year_filter_noop_witness:
  "filteredMovies (applyFilters utcHost (shortOnly\<lparr>yearFilter := ''2024''\<rparr>)) = [alpha, gamma]
   \<and> filteredMovies (applyFilters utcHost (shortOnly\<lparr>yearFilter := ''all''\<rparr>)) = [alpha, gamma]
   \<and> pipeline utcHost (shortOnly\<lparr>yearFilter := ''2024''\<rparr>)
       = pipeline utcHost (shortOnly\<lparr>yearFilter := ''all''\<rparr>)"
proof -
  have f: "filteredMovies (applyFilters utcHost (shortOnly\<lparr>yearFilter := ''all''\<rparr>)) = [alpha, gamma]"
    by code_simp
  from year_filter_noop[where h = utcHost and s = shortOnly and ya = "''2024''" and yb = "''all''"] f show ?thesis by simp
qed

subsection \<open>Pagination and statistics\<close>

text \<open>
  C3. For a positive page size, \<open>totalPages\<close> is the ceiling of the filtered count over
  the page size, and it is 0 exactly when nothing passed the filters.
\<close>

theorem total_pages_ceiling:
  assumes "0 < itemsPerPage s"
  shows "totalPages s = Some \<lceil>real_of_int (filteredCount s) / real_of_int (itemsPerPage s)\<rceil>
         \<and> (totalPages s = Some 0 \<longleftrightarrow> filteredCount s = 0)"
proof -
  let ?n = "int (length (filteredMovies s))"
  let ?p = "itemsPerPage s"
  have tp: "totalPages s = Some (- ((- ?n) div ?p))"
    using assms by (simp add: totalPages_def)
  have ceil: "\<lceil>real_of_int ?n / real_of_int ?p\<rceil> = - ((- ?n) div ?p)"
    by (rule ceiling_divide_eq_div)
  have zero: "(- ((- ?n) div ?p) = 0) = (?n = 0)"
  proof
    assume "- ((- ?n) div ?p) = 0"
    then have "(- ?n) div ?p = 0" by simp
    then have "0 \<le> - ?n"
      using assms pos_imp_zdiv_nonneg_iff[of ?p "- ?n"] by simp
    then show "?n = 0" by simp
  next
    assume "?n = 0"
    then show "- ((- ?n) div ?p) = 0" by simp
  qed
  show ?thesis using tp ceil zero by (simp add: filteredCount_def)
qed

theorem total_pages_ceiling_witness:
  "itemsPerPage (thirdPage\<lparr>itemsPerPage := 2\<rparr>) = 2
   \<and> filteredCount (thirdPage\<lparr>itemsPerPage := 2\<rparr>) = 3
   \<and> totalPages (thirdPage\<lparr>itemsPerPage := 2\<rparr>) = Some 2
   \<and> \<lceil>real_of_int (filteredCount (thirdPage\<lparr>itemsPerPage := 2\<rparr>))
        / real_of_int (itemsPerPage (thirdPage\<lparr>itemsPerPage := 2\<rparr>))\<rceil> = 2"
proof -
  have p: "itemsPerPage (thirdPage\<lparr>itemsPerPage := 2\<rparr>) = 2" by simp
  then have h: "0 < itemsPerPage (thirdPage\<lparr>itemsPerPage := 2\<rparr>)" by simp
  have n: "filteredCount (thirdPage\<lparr>itemsPerPage := 2\<rparr>) = 3"
    by (simp add: filteredCount_def thirdPage_def)
  have t: "totalPages (thirdPage\<lparr>itemsPerPage := 2\<rparr>) = Some 2"
    by (simp add: totalPages_def thirdPage_def)
  from total_pages_ceiling[OF h] p n t show ?thesis by simp
qed

lemma foldl_sum: "foldl (\<lambda>sum movie. sum + f movie) a xs = a + sum_list (map f xs)"
  for a :: int
  by (induction xs arbitrary: a) auto

lemma round_sixtieth: "round (real_of_int k / 60) = (k + 30) div 60"
proof -
  have "real_of_int k / 60 + 1 / 2 = real_of_int (k + 30) / real_of_int 60" by simp
  then have "round (real_of_int k / 60) = \<lfloor>real_of_int (k + 30) / real_of_int 60\<rfloor>"
    unfolding round_def by presburger
  then show ?thesis by (simp only: floor_divide_of_int_eq)
qed

text \<open>
  C8. The statistics: \<open>totalMovies\<close> counts the base collection, \<open>totalHours\<close> is the sum
  of the durations (0 when absent) of the whole base collection divided by 60 and rounded
  to the nearest integer, \<open>filteredCount\<close> counts the filtered list. A run of
  \<open>applyFilters\<close> changes neither of the first two, and makes the third the number of
  entries that passed the filters.
\<close>

theorem statistics_totals:
  "totalMovies s = int (length (movies s))
   \<and> totalHours s
       = round (real_of_int (\<Sum>movie\<leftarrow>movies s. case duration movie of None \<Rightarrow> 0 | Some d \<Rightarrow> d) / 60)
   \<and> filteredCount s = int (length (filteredMovies s))
   \<and> totalMovies (applyFilters h s) = totalMovies s
   \<and> totalHours (applyFilters h s) = totalHours s
   \<and> filteredCount (applyFilters h s) = int (length (filterStage h s))"
  by (simp add: totalMovies_def totalHours_def filteredCount_def foldl_sum round_sixtieth
      applyFilters_def durationOrZero_def length_js_sort)

theorem statistics_totals_witness:
  "totalMovies (applyFilters utcHost shortOnly) = 3
   \<and> totalHours (applyFilters utcHost shortOnly) = 4
   \<and> round (real_of_int (85 + 130 + 0) / 60) = 4
   \<and> filteredCount (applyFilters utcHost shortOnly) = 2"
proof -
  have m: "movies shortOnly = [alpha, beta, gamma]"
    by (simp add: shortOnly_def initial_def)
  have d: "duration alpha = Some 85" "duration beta = Some 130" "duration gamma = None"
    by (simp_all add: alpha_def beta_def gamma_def)
  have f: "filterStage utcHost shortOnly = [alpha, gamma]"
    by code_simp
  have t: "totalHours shortOnly = 4"
    by code_simp
  from statistics_totals[where h = utcHost and s = shortOnly] m d f t show ?thesis by simp
qed

subsection \<open>Page reset\<close>

text \<open>
  C7. An event that changes a filter criterion, the sort key or the page size leaves
  \<open>currentPage\<close> at 1 once its handler and the effect have run, so the page slice of the
  render that follows starts at index 0 of the list it shows. The render between the
  handler and the effect already has \<open>currentPage = 1\<close> (page size) or still shows the
  page slice from before the event (filters and sort key): the recomputed list is never
  sliced at another page.
\<close>

theorem page_reset:
  assumes "changesQuery e s"
  shows "currentPage (dispatch h e s) = 1
         \<and> startIndex (dispatch h e s) = 0
         \<and> currentMovies (dispatch h e s)
             = js_slice (filteredMovies (dispatch h e s)) 0 (itemsPerPage (dispatch h e s))
         \<and> (currentPage (handler e s) = 1 \<or> currentMovies (handler e s) = currentMovies s)"
proof -
  have "currentPage (dispatch h e s) = 1"
    using assms
    by (cases e) (auto simp: dispatch_def deps_def applyFilters_def Let_def)
  moreover have "currentPage (handler e s) = 1 \<or> currentMovies (handler e s) = currentMovies s"
    using assms
    by (cases e)
      (auto simp: currentMovies_def startIndex_def endIndex_def resetFilters_def)
  ultimately show ?thesis
    by (simp add: startIndex_def endIndex_def currentMovies_def)
qed

theorem page_reset_witness:
  "currentPage thirdPage = 3
   \<and> currentMovies thirdPage = [gamma]
   \<and> currentPage (dispatch utcHost (SetSortBy SortDuration) thirdPage) = 1
   \<and> currentMovies (dispatch utcHost (SetSortBy SortDuration) thirdPage) = [beta]
   \<and> currentPage (dispatch utcHost (SetItemsPerPage 2) thirdPage) = 1
   \<and> currentMovies (dispatch utcHost (SetItemsPerPage 2) thirdPage) = [alpha, beta]"
proof -
  have h1: "changesQuery (SetSortBy SortDuration) thirdPage"
    by (simp add: thirdPage_def initial_def)
  have h2: "changesQuery (SetItemsPerPage 2) thirdPage"
    by simp
  have b: "currentPage thirdPage = 3" "currentMovies thirdPage = [gamma]"
    by code_simp+
  have f1: "filteredMovies (dispatch utcHost (SetSortBy SortDuration) thirdPage)
              = [beta, alpha, gamma]"
    by code_simp
  have f2: "filteredMovies (dispatch utcHost (SetItemsPerPage 2) thirdPage)
              = [alpha, beta, gamma]"
    by code_simp
  have p: "itemsPerPage (dispatch utcHost (SetSortBy SortDuration) thirdPage) = 1"
    "itemsPerPage (dispatch utcHost (SetItemsPerPage 2) thirdPage) = 2"
    by code_simp+
  from page_reset[OF h1, of utcHost] page_reset[OF h2, of utcHost] b f1 f2 p
  show ?thesis by (simp add: js_slice_def)
qed

subsection \<open>Empty result\<close>

lemma js_slice_Nil: "js_slice [] a b = []"
  by (simp add: js_slice_def)

lemma not_index_All_Movies: "\<not> is_array_index ''All Movies''"
  by (simp add: is_array_index_def is_digit_def)

text \<open>
  C2 (as amended). When no entry passes the filters and the page size is positive, a
  run of the pipeline yields \<open>totalPages = 0\<close> and \<open>filteredCount = 0\<close>; grouped by month
  or year the page has no bucket at all, and with grouping ``none'' it has the single
  bucket ``All Movies'', which holds no entry.
\<close>

theorem empty_filtered_result:
  assumes "filterStage h s = []" and "0 < itemsPerPage s"
  shows "r_totalPages (pipeline h s) = Some 0
         \<and> r_filteredCount (pipeline h s) = 0
         \<and> r_currentMovies (pipeline h s) = []
         \<and> r_groups (pipeline h s)
             = (if groupBy s = GroupNone then [(''All Movies'', [])] else [])"
  using assms
  by (simp add: pipeline_def render_def applyFilters_def totalPages_def filteredCount_def
      groupedEntries_def groupedMovies_def currentMovies_def js_slice_Nil js_sort_Nil
      object_entries_def not_index_All_Movies)

theorem empty_filtered_result_witness:
  "filterStage utcHost noMatch = []
   \<and> itemsPerPage noMatch = 10
   \<and> r_totalPages (pipeline utcHost noMatch) = Some 0
   \<and> r_filteredCount (pipeline utcHost noMatch) = 0
   \<and> r_groups (pipeline utcHost noMatch) = []"
proof -
  have f: "filterStage utcHost noMatch = []"
    by code_simp
  have p: "itemsPerPage noMatch = 10" "groupBy noMatch = GroupMonth"
    by (simp_all add: noMatch_def initial_def)
  then have h: "0 < itemsPerPage noMatch" by simp
  from empty_filtered_result[OF f h] f p show ?thesis by simp
qed

theorem empty_filtered_counterexample:
  "filterStage utcHost (initial []) = []
   \<and> groupBy (initial []) = GroupNone
   \<and> r_groups (pipeline utcHost (initial [])) = [(''All Movies'', [])]
   \<and> r_groups (pipeline utcHost (initial [])) \<noteq> []"
proof -
  have "r_groups (pipeline utcHost (initial [])) = [(''All Movies'', [])]"
    by code_simp
  moreover have "filterStage utcHost (initial []) = []"
    by code_simp
  ultimately show ?thesis by (simp add: initial_def)
qed

subsection \<open>Group order\<close>

text \<open>
  The loop over the page slice builds the buckets of the specification, in creation
  order (\<open>groupedMovies_bucketsOf\<close>). Month labels and ``Unknown'' start with a letter,
  so \<open>Object.entries\<close> leaves their order alone: grouped by month, the rendered buckets
  are in first-encounter order (\<open>month_groups_first_seen\<close>). For either key every
  rendered bucket holds its entries in page-slice order (\<open>bucket_contents\<close>).
\<close>

lemma set_firstSeen: "set (firstSeen ks) = set ks"
  by (induction ks) auto

lemma distinct_firstSeen: "distinct (firstSeen ks)"
  by (induction ks) (auto simp: set_firstSeen)

lemma firstSeen_snoc:
  "firstSeen (ks @ [k]) = (if k \<in> set ks then firstSeen ks else firstSeen ks @ [k])"
  by (induction ks) auto

lemma map_of_bucketsOf:
  "map_of (bucketsOf key xs) k
     = (if k \<in> key ` set xs then Some (filter (\<lambda>m. key m = k) xs) else None)"
proof -
  have "map_of (map (\<lambda>k. (k, f k)) ks) k = (if k \<in> set ks then Some (f k) else None)"
    for f :: "string \<Rightarrow> 'a list" and ks
    by (induction ks) auto
  then show ?thesis by (simp add: bucketsOf_def set_firstSeen)
qed

lemma pushGroup_bucketsOf:
  "pushGroup (key x) x (bucketsOf key xs) = bucketsOf key (xs @ [x])"
proof (cases "key x \<in> key ` set xs")
  case True
  then have m: "map_of (bucketsOf key xs) (key x) = Some (filter (\<lambda>m. key m = key x) xs)"
    by (simp add: map_of_bucketsOf)
  have "pushGroup (key x) x (bucketsOf key xs)
          = map (\<lambda>(k', v'). if k' = key x then (k', filter (\<lambda>m. key m = key x) xs @ [x])
                              else (k', v'))
              (bucketsOf key xs)"
    by (simp add: pushGroup_def obj_get_def obj_set_def m)
  also have "\<dots> = bucketsOf key (xs @ [x])"
    using True by (auto simp: bucketsOf_def firstSeen_snoc)
  finally show ?thesis .
next
  case False
  then have m: "map_of (bucketsOf key xs) (key x) = None"
    by (simp add: map_of_bucketsOf)
  from False have "\<And>m. m \<in> set xs \<Longrightarrow> key m \<noteq> key x"
    by (metis imageI)
  then have e: "filter (\<lambda>m. key m = key x) xs = []"
    by (simp add: filter_empty_conv)
  have "pushGroup (key x) x (bucketsOf key xs) = bucketsOf key xs @ [(key x, [x])]"
    by (simp add: pushGroup_def obj_get_def obj_set_def m)
  also have "\<dots> = bucketsOf key (xs @ [x])"
    using False e by (auto simp: bucketsOf_def firstSeen_snoc set_firstSeen)
  finally show ?thesis .
qed

lemma foldl_pushGroup:
  "foldl (\<lambda>groups movie. pushGroup (key movie) movie groups) [] xs = bucketsOf key xs"
proof (induction xs rule: rev_induct)
  case Nil
  show ?case by (simp add: bucketsOf_def)
next
  case (snoc x xs)
  then show ?case by (simp add: pushGroup_bucketsOf)
qed

lemma groupedMovies_bucketsOf:
  "groupBy s \<noteq> GroupNone
   \<Longrightarrow> groupedMovies h s = bucketsOf (groupKey h (groupBy s)) (currentMovies s)"
  by (simp add: groupedMovies_def foldl_pushGroup)

lemma set_object_entries: "set (object_entries obj) = set obj"
  by (auto simp: object_entries_def)

lemma object_entries_no_index:
  "(\<And>k v. (k, v) \<in> set obj \<Longrightarrow> \<not> is_array_index k) \<Longrightarrow> object_entries obj = obj"
proof -
  assume a: "\<And>k v. (k, v) \<in> set obj \<Longrightarrow> \<not> is_array_index k"
  then have "filter (\<lambda>(k, v). is_array_index k) obj = []"
    by (auto simp: filter_empty_conv)
  moreover from a have "filter (\<lambda>(k, v). \<not> is_array_index k) obj = obj"
    by (auto simp: filter_id_conv)
  ultimately show ?thesis by (simp add: object_entries_def)
qed

lemma not_index_letter: "k \<noteq> [] \<Longrightarrow> \<not> is_digit (hd k) \<Longrightarrow> \<not> is_array_index (k @ r)"
  by (cases k) (auto simp: is_array_index_def)

lemma monthNames_letters: "n \<in> set monthNames \<Longrightarrow> n \<noteq> [] \<and> \<not> is_digit (hd n)"
  by (auto simp: monthNames_def is_digit_def)

lemma not_index_month: "\<not> is_array_index (groupKey h GroupMonth movie)"
proof (cases "dateAdded movie")
  case None
  then show ?thesis by (simp add: groupKey_def is_array_index_def is_digit_def)
next
  case (Some t)
  have "nat (getMonth h t mod 12) < length monthNames"
    by (simp add: monthNames_def)
  then have "monthNames ! nat (getMonth h t mod 12) \<in> set monthNames"
    by (rule nth_mem)
  then show ?thesis
    using Some monthNames_letters not_index_letter
    by (simp add: groupKey_def monthYearLabel_def)
qed

lemma month_groups_first_seen:
  assumes "groupBy s = GroupMonth"
  shows "groupedEntries h s = bucketsOf (groupKey h GroupMonth) (currentMovies s)"
proof -
  have g: "groupedMovies h s = bucketsOf (groupKey h GroupMonth) (currentMovies s)"
    using assms groupedMovies_bucketsOf[of s h] by simp
  have "object_entries (bucketsOf (groupKey h GroupMonth) (currentMovies s))
          = bucketsOf (groupKey h GroupMonth) (currentMovies s)"
  proof (rule object_entries_no_index)
    fix k v
    assume "(k, v) \<in> set (bucketsOf (groupKey h GroupMonth) (currentMovies s))"
    then have "k \<in> groupKey h GroupMonth ` set (currentMovies s)"
      by (auto simp: bucketsOf_def set_firstSeen)
    then show "\<not> is_array_index k" using not_index_month by auto
  qed
  with g show ?thesis by (simp add: groupedEntries_def)
qed

lemma bucket_contents:
  assumes "groupBy s \<noteq> GroupNone" and "(k, ms) \<in> set (groupedEntries h s)"
  shows "ms = filter (\<lambda>m. groupKey h (groupBy s) m = k) (currentMovies s)"
  using assms
  by (auto simp: groupedEntries_def set_object_entries groupedMovies_bucketsOf bucketsOf_def)

text \<open>
  C1. Rendered buckets in the order their labels are first met on the page: this fails
  for year grouping. On a page that shows an entry added in 2025 before an entry added
  in 2024, the labels are first met in the order 2025, 2024, but
  the year labels are array-index keys of the \<open>groups\<close> object, and \<open>Object.entries\<close>
  yields such keys in ascending numeric order: the rendered buckets are 2024, 2025.
  Grouped by month, the same page renders February 2025 before March 2024.
\<close>

theorem year_groups_order:
  "r_currentMovies (pipeline utcHost byYear) = [alpha, beta]
   \<and> map (groupKey utcHost GroupYear) [alpha, beta] = [''2025'', ''2024'']
   \<and> firstSeen (map (groupKey utcHost GroupYear) (r_currentMovies (pipeline utcHost byYear)))
       = [''2025'', ''2024'']
   \<and> groupedMovies utcHost (applyFilters utcHost byYear)
       = [(''2025'', [alpha]), (''2024'', [beta])]
   \<and> r_groups (pipeline utcHost byYear) = [(''2024'', [beta]), (''2025'', [alpha])]
   \<and> r_groups (pipeline utcHost (byYear\<lparr>groupBy := GroupMonth\<rparr>))
       = [(''February 2025'', [alpha]), (''March 2024'', [beta])]"
  by code_simp

theorem year_groups_order_witness:
  "map fst (r_groups (pipeline utcHost byYear))
     \<noteq> firstSeen (map (groupKey utcHost GroupYear) (r_currentMovies (pipeline utcHost byYear)))"
  using year_groups_order by simp

end
